theory Spec2Isabelle
  imports Complex_Main "HOL-Library.Multiset"
begin

section \<open>Python values, exceptions and names\<close>

text \<open>
  An exception of the Python source is a value of \<open>error\<close>; a function that can raise
  returns \<open>error + 'a\<close>, with \<open>Inl\<close> for the exception. The payload of an exception is
  its message without the leading and trailing newlines of the source (a message template
  that formats a number is kept without the number); for \<open>NameError\<close> and \<open>KeyError\<close>
  it is the name or key that was not found.
\<close>

datatype error =
    TypeError string
  | ValueError string
  | AssertionError string
  | NameError string
  | KeyError string
  | AttributeError string
  | IndexError
  | StopIteration
  | NoDataFrameException string
  | NotValidMotifMatrixException string

text \<open>
  Python is dynamically typed and the source checks its arguments with \<open>isinstance\<close>.
  An argument is either an instance of the class the check asks for (\<open>Is v\<close>) or an
  object of another class, given by its type name (\<open>IsNot t\<close>). A \<open>bool\<close> is an
  \<open>int\<close> in Python, so \<open>True\<close> is \<open>Is 1\<close> where an int is asked for.
\<close>

datatype 'a arg = Is 'a | IsNot string

fun is_instance :: "'a arg \<Rightarrow> bool" where
  "is_instance (Is v) = True"
| "is_instance (IsNot t) = False"

definition bind_err :: "error + 'a \<Rightarrow> ('a \<Rightarrow> error + 'b) \<Rightarrow> error + 'b" where
  "bind_err r f = (case r of Inl e \<Rightarrow> Inl e | Inr v \<Rightarrow> f v)"

text \<open>
  A name is resolved in the local scope of the running function, then in the globals of
  its module (no builtin of Python is called \<open>allowed_matrices\<close> or \<open>m\<close>, the two
  names looked up below); a name bound in neither raises \<open>NameError\<close>. A scope lists
  the names bound at the point of the lookup; of a bound object only what the source
  uses is kept: the strings of a list of strings.
\<close>

datatype binding = ListObj "string list" | OtherObj

type_synonym scope = "(string \<times> binding) list"

definition lookup_name :: "scope \<Rightarrow> scope \<Rightarrow> string \<Rightarrow> error + binding" where
  "lookup_name locals globals n =
     (case map_of locals n of
        Some b \<Rightarrow> Inr b
      | None \<Rightarrow> (case map_of globals n of Some b \<Rightarrow> Inr b | None \<Rightarrow> Inl (NameError n)))"


section \<open>utils.py\<close>

definition DNA_ALPHABET :: "string list" where
  "DNA_ALPHABET = [''A'', ''C'', ''G'', ''T'']"

definition isListEqual :: "'a list \<Rightarrow> 'a list \<Rightarrow> bool" where
  "isListEqual lst1 lst2 =
     (if length lst1 = length lst2 \<and> set lst1 = set lst2 then True else False)"


section \<open>numpy doubles\<close>

text \<open>
  A double is NaN, an infinity or a finite double, which is given by its value, a real
  number (the two zeros of a double have one value). Comparing doubles is exact, and a
  comparison with NaN is false. The minimum that pandas takes of a column leaves the NaN
  cells out (\<open>skipna=True\<close> by default) and is NaN when nothing is left.

  Adding doubles is not exact: a float64 sum rounds, overflows to an infinity, and the
  order of its additions is the library's. \<open>Series.sum()\<close> is arithmetic of pandas and
  numpy, not code of this repository: it is a parameter, \<open>series_sum\<close>, of the
  function that calls it.
\<close>

datatype double = NaN | MinusInf | Num real | PlusInf

fun double_le :: "double \<Rightarrow> double \<Rightarrow> bool" where
  "double_le NaN b = False"
| "double_le a NaN = False"
| "double_le MinusInf b = True"
| "double_le a PlusInf = True"
| "double_le (Num a) (Num b) = (a \<le> b)"
| "double_le a b = False"

definition double_min :: "double \<Rightarrow> double \<Rightarrow> double" where
  "double_min a b = (if double_le a b then a else b)"

definition column_min :: "double list \<Rightarrow> double" where
  "column_min c =
     (case filter (\<lambda>v. v \<noteq> NaN) c of [] \<Rightarrow> NaN | x # xs \<Rightarrow> fold double_min xs x)"


section \<open>pandas.DataFrame\<close>

text \<open>
  A DataFrame is a rectangular table with labelled columns: the column labels and the
  rows of cells, every row as long as the list of labels. The row labels (the index) are
  left out: the source only counts them (\<open>len(data.index)\<close> is the number of rows).
\<close>

record 'a frame =
  columns :: "string list"
  data_rows :: "'a list list"

definition rectangular :: "'a frame \<Rightarrow> bool" where
  "rectangular f = list_all (\<lambda>r. length r = length (columns f)) (data_rows f)"

definition frame_empty :: "'a frame \<Rightarrow> bool" where
  \<comment> \<open>\<open>DataFrame.empty\<close>: an axis of length 0\<close>
  "frame_empty f = (columns f = [] \<or> data_rows f = [])"

definition column_values :: "'a frame \<Rightarrow> nat \<Rightarrow> 'a list" where
  "column_values f j = map (\<lambda>r. r ! j) (data_rows f)"

definition frame_columns :: "'a frame \<Rightarrow> 'a list list" where
  \<comment> \<open>the table read by columns\<close>
  "frame_columns f = map (column_values f) [0..<length (columns f)]"

definition frame_min :: "double frame \<Rightarrow> double list" where
  \<comment> \<open>\<open>DataFrame.min()\<close>: \<open>axis=0\<close> by default, the minimum of every column, as a
      Series with one entry per column\<close>
  "frame_min f = map (\<lambda>j. column_min (column_values f j)) [0..<length (columns f)]"


section \<open>utils.py: list\_data\<close>

text \<open>
  The cells of a table of results are strings, ints and doubles. \<open>data[label]\<close> is the
  column with that label: \<open>KeyError\<close> when no column has it, and when several have it a
  DataFrame, which has no \<open>to_list\<close>.
\<close>

datatype cell = StrCell string | IntCell int | FloatCell real

fun index_of :: "string list \<Rightarrow> string \<Rightarrow> nat" where
  "index_of [] n = 0"
| "index_of (c # cs) n = (if c = n then 0 else Suc (index_of cs n))"

definition column_of :: "'a frame \<Rightarrow> string \<Rightarrow> 'a list" where
  \<comment> \<open>the cells of the first column with the label\<close>
  "column_of f label = column_values f (index_of (columns f) label)"

definition column_to_list :: "'a frame \<Rightarrow> string \<Rightarrow> error + 'a list" where
  \<comment> \<open>\<open>data[label].to_list()\<close>\<close>
  "column_to_list f label =
     (if label \<notin> set (columns f) then Inl (KeyError label)
      else if count_list (columns f) label > 1 then Inl (AttributeError ''to_list'')
      else Inr (column_of f label))"

definition list_data :: "cell frame arg \<Rightarrow> bool \<Rightarrow> error + cell list list" where
  "list_data data_a qvalue =
     (case data_a of
        IsNot t \<Rightarrow> Inl (NoDataFrameException ''ERROR: not allowed data type given'')
      | Is data \<Rightarrow>
     if \<not> length (columns data) \<le> 12 then Inl (AssertionError []) else
     if \<not> length (columns data) \<ge> 11 then Inl (AssertionError []) else
     bind_err (column_to_list data ''sequence_name'') (\<lambda>seqnames.
     bind_err (column_to_list data ''start'') (\<lambda>starts.
     bind_err (column_to_list data ''stop'') (\<lambda>stops.
     bind_err (column_to_list data ''score'') (\<lambda>scores.
     bind_err (column_to_list data ''strand'') (\<lambda>strands.
     bind_err (column_to_list data ''motif_id'') (\<lambda>motifIDs.
     bind_err (column_to_list data ''motif_alt_id'') (\<lambda>motifNames.
     bind_err (column_to_list data ''p-value'') (\<lambda>pvalues.
     bind_err (column_to_list data ''matched_sequence'') (\<lambda>sequences.
     bind_err (column_to_list data ''haplotype_frequency'') (\<lambda>frequencies.
     bind_err (column_to_list data ''reference'') (\<lambda>references.
     bind_err (if qvalue then column_to_list data ''q-value'' else Inr []) (\<lambda>qvalues.
     let summary =
           (if qvalue
            then [motifIDs, motifNames, seqnames, starts, stops, strands, scores,
                  pvalues, sequences, frequencies, references, qvalues]
            else [motifIDs, motifNames, seqnames, starts, stops, strands, scores,
                  pvalues, sequences, frequencies, references]);
         summary_len = length motifIDs
     in if \<not> summary_len = length (data_rows data) then Inl (AssertionError [])
        else if \<not> summary_len = length motifNames then Inl (AssertionError [])
        else if \<not> summary_len = length seqnames then Inl (AssertionError [])
        else if \<not> summary_len = length starts then Inl (AssertionError [])
        else if \<not> summary_len = length stops then Inl (AssertionError [])
        else if \<not> summary_len = length strands then Inl (AssertionError [])
        else if \<not> summary_len = length scores then Inl (AssertionError [])
        else if \<not> summary_len = length pvalues then Inl (AssertionError [])
        else if \<not> summary_len = length sequences then Inl (AssertionError [])
        else if \<not> summary_len = length frequencies then Inl (AssertionError [])
        else if \<not> summary_len = length references then Inl (AssertionError [])
        else if qvalue \<and> \<not> summary_len = length qvalues then Inl (AssertionError [])
        else Inr summary)))))))))))))"


section \<open>motif.py\<close>

text \<open>
  The attributes of a Motif object. The source writes them with a leading underscore
  (\<open>_count_matrix\<close>, \<open>_alphabet\<close>, \<open>_isScaled\<close>, ...), which an Isabelle name cannot
  have: the field \<open>alphabet\<close> is the attribute \<open>_alphabet\<close>, and so on. The one
  attribute the source writes without underscore, \<open>self.alphabet\<close> of
  \<open>setAlphabet\<close>, is the field \<open>alphabet_attr\<close>. An attribute that no statement has
  bound yet is \<open>None\<close>; an attribute with a class-level default holds the default.
\<close>

record motif =
  count_matrix :: "double frame"
  score_matrix :: "real list list option"
  pval_matrix :: "real list option"
  min_val :: double
  max_val :: double
  scale :: int
  offset :: real
  bg :: "(string \<times> real) list option"
  width :: int
  motif_id :: string
  motif_name :: string
  alphabet :: "string list"
  alphabet_attr :: "string list option"
  isScaled :: bool

definition not_DNA_msg :: string where
  "not_DNA_msg = ''ERROR: The motif is not built on DNA alphabet.''"

definition already_scaled_msg :: string where
  "already_scaled_msg = ''ERROR: The motif matrix has already been scaled.''"

definition unknown_matrix_msg :: string where
  "unknown_matrix_msg = ''ERROR: Unknown motif matrix.''"

definition Motif_init ::
  "double frame arg \<Rightarrow> int arg \<Rightarrow> string list arg \<Rightarrow> string arg \<Rightarrow> string arg \<Rightarrow> error + motif"
where
  "Motif_init count_matrix_a width_a alphabet_a motif_id_a motif_name_a =
     (case count_matrix_a of
        IsNot t \<Rightarrow> Inl (TypeError (''ERROR: Expected pandas.DataFrame, got '' @ t @ ''.''))
      | Is cm \<Rightarrow>
     if frame_empty cm
     then Inl (NotValidMotifMatrixException ''ERROR: Empty motif count matrix.'') else
     (case width_a of
        IsNot t \<Rightarrow> Inl (TypeError (''ERROR: Expected int, got '' @ t @ ''.''))
      | Is w \<Rightarrow>
     if w \<le> 0 then Inl (ValueError ''ERROR: Forbidden motif width.'') else
     (case motif_id_a of
        IsNot t \<Rightarrow> Inl (TypeError (''ERROR: Expected str, got '' @ t @ ''.''))
      | Is i \<Rightarrow>
     if i = [] then Inl (ValueError ''ERROR: Not valid motif ID.'') else
     (case motif_name_a of
        IsNot t \<Rightarrow> Inl (TypeError (''ERROR: Expected str, got '' @ t @ ''.''))
      | Is n \<Rightarrow>
     if n = [] then Inl (ValueError ''ERROR: Not valid motif name.'') else
     (case alphabet_a of
        IsNot t \<Rightarrow> Inl (TypeError (''ERROR: Expected list, got '' @ t @ ''.''))
      | Is a \<Rightarrow>
     if \<not> isListEqual a DNA_ALPHABET then Inl (ValueError not_DNA_msg) else
     Inr \<lparr> count_matrix = cm, score_matrix = None, pval_matrix = None,
           min_val = MinusInf, max_val = PlusInf, scale = - 1, offset = 0, bg = None,
           width = w, motif_id = i, motif_name = n, alphabet = a, alphabet_attr = None,
           isScaled = False \<rparr>)))))"

text \<open>
  A method that changes the object returns the object after the call beside its result;
  every \<open>raise\<close> of these methods stands before the first assignment.
\<close>

definition setAlphabet :: "motif \<Rightarrow> string list arg \<Rightarrow> (error + unit) \<times> motif" where
  "setAlphabet self alphabet_a =
     (case alphabet_a of
        IsNot t \<Rightarrow> (Inl (TypeError (''ERROR: Expected list, got '' @ t @ ''.'')), self)
      | Is a \<Rightarrow>
          if length a = 0 then (Inl (ValueError ''ERROR: Empty motif alphabet.''), self)
          else if \<not> isListEqual a DNA_ALPHABET then (Inl (ValueError not_DNA_msg), self)
          else (Inr (), self\<lparr>alphabet_attr := Some a\<rparr>))"

definition setIsScaled :: "motif \<Rightarrow> (error + unit) \<times> motif" where
  "setIsScaled self =
     (if isScaled self then (Inl (AssertionError already_scaled_msg), self)
      else (Inr (), self\<lparr>isScaled := True\<rparr>))"

definition getMotif_matrix :: "motif \<Rightarrow> double frame" where
  "getMotif_matrix self = count_matrix self"

definition getAlphabet :: "motif \<Rightarrow> string list" where
  "getAlphabet self = alphabet self"

definition getIsScaled :: "motif \<Rightarrow> bool" where
  "getIsScaled self = isScaled self"

definition compute_minValue :: "(double list \<Rightarrow> double) \<Rightarrow> motif \<Rightarrow> motif" where
  \<comment> \<open>\<open>series_sum\<close> is \<open>Series.sum()\<close> on a Series of doubles\<close>
  "compute_minValue series_sum self =
     (let motif_matrix = getMotif_matrix self;
          min_value = series_sum (frame_min motif_matrix)
      in self\<lparr>min_val := min_value\<rparr>)"

text \<open>
  \<open>Motif.print\<close>: what the call writes to the standard output, or the exception. The
  local scope at the membership test holds the two parameters and the list the line
  before bound to \<open>available_matrices\<close>; the globals of the module are the names its
  import statements and its class statement bind.
\<close>

datatype printed =
    PrintedFrame "double frame"
  | PrintedMatrix "real list list"
  | PrintedVector "real list"

definition print_locals :: scope where
  "print_locals =
     [(''self'', OtherObj), (''matrix'', OtherObj),
      (''available_matrices'', ListObj [''raw_counts'', ''score_matrix'', ''pval_matrix''])]"

definition motif_globals :: scope where
  "motif_globals =
     [(''NotValidMotifMatrixException'', OtherObj), (''NoDataFrameException'', OtherObj),
      (''WrongMotifIDException'', OtherObj), (''WrongMotifWidthException'', OtherObj),
      (''WrongMotifNameException'', OtherObj), (''NotValidAlphabetException'', OtherObj),
      (''ValueException'', OtherObj), (''NotValidBGException'', OtherObj),
      (''isListEqual'', OtherObj), (''DNA_ALPHABET'', ListObj DNA_ALPHABET),
      (''List'', OtherObj), (''Optional'', OtherObj), (''Dict'', OtherObj),
      (''pd'', OtherObj), (''np'', OtherObj), (''Motif'', OtherObj)]"

definition Motif_print :: "motif \<Rightarrow> string arg \<Rightarrow> error + printed" where
  "Motif_print self matrix_a =
     (case matrix_a of
        IsNot t \<Rightarrow> Inl (TypeError (''ERROR: Expected str, got '' @ t @ ''.''))
      | Is matrix \<Rightarrow>
     if matrix = [] then Inl (ValueError ''ERROR: Unable to guess what should be printed.'')
     else
     (case lookup_name print_locals motif_globals ''allowed_matrices'' of
        Inl e \<Rightarrow> Inl e
      | Inr OtherObj \<Rightarrow> Inl (TypeError ''argument is not iterable'')
      | Inr (ListObj allowed_matrices) \<Rightarrow>
     if matrix \<notin> set allowed_matrices then Inl (ValueError unknown_matrix_msg)
     else if matrix = ''raw_counts'' then Inr (PrintedFrame (count_matrix self))
     else if matrix = ''score_matrix'' then
       (case score_matrix self of
          None \<Rightarrow> Inl (AttributeError ''_score_matrix'')
        | Some s \<Rightarrow> Inr (PrintedMatrix s))
     else if matrix = ''pval_matrix'' then
       (case pval_matrix self of
          None \<Rightarrow> Inl (AttributeError ''_pval_matrix'')
        | Some p \<Rightarrow> Inr (PrintedVector p))
     else Inl (ValueError unknown_matrix_msg)))"


section \<open>motif\_set.py\<close>

text \<open>
  The class statement of \<open>MotifSet\<close> binds \<open>_motifs\<close> to one list object and
  \<open>_motifs_num\<close> to 0, as attributes of the class. In \<open>addMotif\<close>,
  \<open>self._motifs += mtfs\<close> reads the attribute (an instance without one finds the list
  of the class), extends that list object in place and binds the same object to the
  instance; \<open>self._motifs_num += len(mtfs)\<close> reads the count (an instance without one
  finds the 0 of the class) and binds the sum to the instance. No other statement of the
  module binds either attribute. So every instance reads and extends the one list object
  of the class, and has a count of its own. The store holds the contents of that list and
  the \<open>_motifs_num\<close> of the instances that have one; an instance of \<open>MotifSet\<close> is
  its address. An element of a list is a Motif (\<open>Is m\<close>) or an object of another class.
  A batch is given by its elements: it is a list object of its own, as a list literal
  is, and not the list of the class itself.
\<close>

record 'm store =
  class_motifs :: "'m arg list"
  inst_motifs_num :: "nat \<rightharpoonup> int"

definition MotifSet_class :: "'m store" where
  \<comment> \<open>the store after the class statement\<close>
  "MotifSet_class = \<lparr> class_motifs = [], inst_motifs_num = Map.empty \<rparr>"

definition motifs_num :: "'m store \<Rightarrow> nat \<Rightarrow> int" where
  \<comment> \<open>\<open>self._motifs_num\<close>\<close>
  "motifs_num st self = (case inst_motifs_num st self of None \<Rightarrow> 0 | Some n \<Rightarrow> n)"

definition empty_set_msg :: string where
  "empty_set_msg = ''ERROR: The MotifSet object is empty.''"

definition addMotif_locals :: scope where
  \<comment> \<open>the names bound in \<open>addMotif\<close> where line 90 runs; the \<open>m\<close> of the generator
      expression of line 88 is local to the generator\<close>
  "addMotif_locals = [(''self'', OtherObj), (''mtfs'', OtherObj), (''errmsg'', OtherObj)]"

definition motif_set_globals :: scope where
  "motif_set_globals =
     [(''Motif'', OtherObj), (''List'', OtherObj), (''MotifSet'', OtherObj),
      (''MotifSetIterator'', OtherObj)]"

definition addMotif :: "'m store \<Rightarrow> nat \<Rightarrow> 'm arg list arg \<Rightarrow> (error + unit) \<times> 'm store" where
  "addMotif st self mtfs_a =
     (case mtfs_a of
        IsNot t \<Rightarrow> (Inl (TypeError (''ERROR: Expected list, got '' @ t @ ''.'')), st)
      | Is mtfs \<Rightarrow>
          if \<not> list_all is_instance mtfs then
            (case lookup_name addMotif_locals motif_set_globals ''m'' of
               Inl e \<Rightarrow> (Inl e, st)
             | Inr b \<Rightarrow> (Inl (TypeError ''ERROR: Expected Motif.''), st))
          else
            let st1 = st\<lparr>class_motifs := class_motifs st @ mtfs\<rparr>;
                oldsize = motifs_num st1 self;
                st2 = st1\<lparr>inst_motifs_num :=
                        (inst_motifs_num st1)(self \<mapsto> motifs_num st1 self + int (length mtfs))\<rparr>
            in if \<not> motifs_num st2 self > 0 then (Inl (AssertionError []), st2)
               else if \<not> motifs_num st2 self = oldsize + int (length mtfs)
               then (Inl (AssertionError []), st2)
               else (Inr (), st2))"

definition MotifSet_len :: "'m store \<Rightarrow> nat \<Rightarrow> int" where
  "MotifSet_len st self = int (length (class_motifs st))"

definition getMotifsList :: "'m store \<Rightarrow> nat \<Rightarrow> error + 'm arg list" where
  "getMotifsList st self =
     (if class_motifs st = [] then Inl (ValueError empty_set_msg)
      else if motifs_num st self = 0 then Inl (ValueError empty_set_msg)
      else Inr (class_motifs st))"

definition MotifSet_size :: "'m store \<Rightarrow> nat \<Rightarrow> error + int" where
  \<comment> \<open>the property \<open>size\<close>, that is \<open>_size()\<close>\<close>
  "MotifSet_size st self =
     (if \<not> motifs_num st self \<ge> 0 then Inl (AssertionError [])
      else Inr (motifs_num st self))"

text \<open>
  The iterator: the instance it iterates and its index. \<open>lst[i]\<close> of Python counts a
  negative index from the end and raises \<open>IndexError\<close> out of range.
\<close>

record iterator =
  motifSet :: nat
  index :: int

definition list_getitem :: "'a list \<Rightarrow> int \<Rightarrow> error + 'a" where
  "list_getitem lst i =
     (if 0 \<le> i \<and> i < int (length lst) then Inr (lst ! nat i)
      else if i < 0 \<and> - int (length lst) \<le> i then Inr (lst ! nat (int (length lst) + i))
      else Inl IndexError)"

definition MotifSetIterator_init :: "nat arg \<Rightarrow> error + iterator" where
  "MotifSetIterator_init motifSet_a =
     (case motifSet_a of
        IsNot t \<Rightarrow> Inl (ValueError (''ERROR: Expected MotifSet, got '' @ t))
      | Is s \<Rightarrow> Inr \<lparr> motifSet = s, index = 0 \<rparr>)"

definition MotifSet_iter :: "nat \<Rightarrow> error + iterator" where
  \<comment> \<open>\<open>__iter__\<close>\<close>
  "MotifSet_iter self = MotifSetIterator_init (Is self)"

definition MotifSetIterator_next :: "'m store \<Rightarrow> iterator \<Rightarrow> (error + 'm arg) \<times> iterator" where
  \<comment> \<open>\<open>__next__\<close>: the result or the exception, and the iterator after the call\<close>
  "MotifSetIterator_next st self =
     (case MotifSet_size st (motifSet self) of
        Inl e \<Rightarrow> (Inl e, self)
      | Inr size_v \<Rightarrow>
          if index self < size_v then
            (case getMotifsList st (motifSet self) of
               Inl e \<Rightarrow> (Inl e, self)
             | Inr motifs_lst \<Rightarrow>
                 (case list_getitem motifs_lst (index self) of
                    Inl e \<Rightarrow> (Inl e, self)
                  | Inr result \<Rightarrow> (Inr result, self\<lparr>index := index self + 1\<rparr>)))
          else (Inl StopIteration, self))"


section \<open>Values to compute on, and the specification's words\<close>

definition example_matrix :: "double frame" where
  \<comment> \<open>two positions, one row each, over the columns A, C, G, T\<close>
  "example_matrix =
     \<lparr> columns = [''A'', ''C'', ''G'', ''T''],
       data_rows = [[Num (1/2), Num (1/4), Num (1/8), Num (1/8)],
                    [Num (1/4), Num (1/4), Num (1/4), Num (1/4)]] \<rparr>"

definition example_motif :: motif where
  "example_motif =
     \<lparr> count_matrix = example_matrix, score_matrix = None, pval_matrix = None,
       min_val = MinusInf, max_val = PlusInf, scale = - 1, offset = 0, bg = None,
       width = 2, motif_id = ''MA0001.1'', motif_name = ''AGL3'',
       alphabet = [''A'', ''C'', ''G'', ''T''], alphabet_attr = None, isScaled = False \<rparr>"

definition sum_of_row_minima :: "(double list \<Rightarrow> double) \<Rightarrow> double list list \<Rightarrow> double" where
  \<comment> \<open>the specification's words: the sum, over the rows of a table, of the minimum
      entry of the row\<close>
  "sum_of_row_minima series_sum rs = series_sum (map column_min rs)"

definition exact_sum :: "double list \<Rightarrow> double" where
  \<comment> \<open>\<open>Series.sum()\<close> where no addition rounds: on finite doubles of which every sum
      of some of them is a double (a float64 addition whose exact result is a double
      returns it), as are multiples of 1/8 between 0 and 1\<close>
  "exact_sum vs = Num (\<Sum>v\<leftarrow>vs. case v of Num r \<Rightarrow> r | _ \<Rightarrow> 0)"

text \<open>
  Two MotifSet objects, at the addresses 0 and 1, and Motif objects named by numbers:
  the store after \<open>MotifSet().addMotif([m10])\<close> on the first, and the store after
  \<open>MotifSet().addMotif([m20])\<close> on the second then.
\<close>

definition one_set_store :: "nat store" where
  "one_set_store = snd (addMotif MotifSet_class 0 (Is [Is 10]))"

definition two_sets_store :: "nat store" where
  "two_sets_store = snd (addMotif one_set_store 1 (Is [Is 20]))"

definition hit_labels :: "string list" where
  \<comment> \<open>the labels of the columns that \<open>list_data\<close> puts in its summary, in the order
      of the summary (the q-value column apart)\<close>
  "hit_labels =
     [''motif_id'', ''motif_alt_id'', ''sequence_name'', ''start'', ''stop'', ''strand'',
      ''score'', ''p-value'', ''matched_sequence'', ''haplotype_frequency'', ''reference'']"

definition example_hits :: "cell frame" where
  \<comment> \<open>two hits, without q-values\<close>
  "example_hits =
     \<lparr> columns =
         [''motif_id'', ''motif_alt_id'', ''sequence_name'', ''start'', ''stop'', ''strand'',
          ''score'', ''p-value'', ''matched_sequence'', ''haplotype_frequency'', ''reference''],
       data_rows =
         [[StrCell ''MA0001.1'', StrCell ''AGL3'', StrCell ''chr1:100-200'', IntCell 120,
           IntCell 130, StrCell ''+'', FloatCell (21 / 2), FloatCell (1 / 1024),
           StrCell ''CCATAAATAG'', IntCell 3, StrCell ''ref''],
          [StrCell ''MA0001.1'', StrCell ''AGL3'', StrCell ''chr1:100-200'', IntCell 150,
           IntCell 160, StrCell ''-'', FloatCell (17 / 2), FloatCell (1 / 512),
           StrCell ''CCATATATGG'', IntCell 1, StrCell ''non.ref'']] \<rparr>"

definition example_hits_q :: "cell frame" where
  \<comment> \<open>the same hits with a column of q-values\<close>
  "example_hits_q =
     \<lparr> columns = columns example_hits @ [''q-value''],
       data_rows = map (\<lambda>r. r @ [FloatCell (1 / 4)]) (data_rows example_hits) \<rparr>"


section \<open>Properties of motif.py\<close>

subsection \<open>The example motif\<close>

lemma example_motif_constructed:
  "Motif_init (Is example_matrix) (Is 2) (Is [''A'', ''C'', ''G'', ''T'']) (Is ''MA0001.1'')
     (Is ''AGL3'') = Inr example_motif"
  by (simp add: Motif_init_def example_matrix_def example_motif_def frame_empty_def
      isListEqual_def DNA_ALPHABET_def)

lemma isListEqual_DNA:
  "isListEqual a DNA_ALPHABET = (length a = 4 \<and> set a = set DNA_ALPHABET)"
  by (auto simp: isListEqual_def DNA_ALPHABET_def)

subsection \<open>compute\_minValue\<close>

lemma double_le_refl: "a \<noteq> NaN \<Longrightarrow> double_le a a"
  by (cases a) simp_all

lemma double_le_total: "a \<noteq> NaN \<Longrightarrow> b \<noteq> NaN \<Longrightarrow> double_le a b \<or> double_le b a"
  by (cases a; cases b) auto

lemma double_le_trans: "double_le a b \<Longrightarrow> double_le b c \<Longrightarrow> double_le a c"
  by (cases a; cases b; cases c) simp_all

lemma double_min_cases: "double_min a b = a \<or> double_min a b = b"
  by (simp add: double_min_def)

lemma double_min_le:
  "a \<noteq> NaN \<Longrightarrow> b \<noteq> NaN \<Longrightarrow>
   double_le (double_min a b) a \<and> double_le (double_min a b) b"
  using double_le_total [of a b] by (auto simp: double_min_def double_le_refl)

lemma fold_double_min:
  "\<forall>v \<in> set (x # xs). v \<noteq> NaN \<Longrightarrow>
   fold double_min xs x \<in> set (x # xs) \<and>
   (\<forall>v \<in> set (x # xs). double_le (fold double_min xs x) v)"
proof (induction xs arbitrary: x)
  case Nil
  then show ?case by (simp add: double_le_refl)
next
  case (Cons y ys)
  have yx: "y \<noteq> NaN" "x \<noteq> NaN"
    using Cons.prems by simp_all
  have m: "double_min y x \<noteq> NaN"
    using yx double_min_cases [of y x] by auto
  have "\<forall>v \<in> set (double_min y x # ys). v \<noteq> NaN"
    using Cons.prems m by simp
  from Cons.IH [OF this]
  have r: "fold double_min ys (double_min y x) \<in> set (double_min y x # ys)"
    and le: "\<forall>v \<in> set (double_min y x # ys). double_le (fold double_min ys (double_min y x)) v"
    by blast+
  have "fold double_min ys (double_min y x) \<in> set (x # y # ys)"
    using r double_min_cases [of y x] by auto
  moreover have "double_le (fold double_min ys (double_min y x)) x"
    and "double_le (fold double_min ys (double_min y x)) y"
    using le double_min_le [OF yx] double_le_trans by (meson list.set_intros(1))+
  ultimately show ?case
    using le by simp
qed

lemma column_min_least:
  "((\<forall>v \<in> set c. v = NaN) \<longrightarrow> column_min c = NaN) \<and>
   ((\<exists>v \<in> set c. v \<noteq> NaN) \<longrightarrow>
      column_min c \<in> set c \<and> column_min c \<noteq> NaN \<and>
      (\<forall>v \<in> set c. v \<noteq> NaN \<longrightarrow> double_le (column_min c) v))"
proof (cases "filter (\<lambda>v. v \<noteq> NaN) c")
  case Nil
  then have "\<forall>v \<in> set c. v = NaN"
    by (simp add: filter_empty_conv)
  with Nil show ?thesis
    by (simp add: column_min_def)
next
  case (Cons x xs)
  have s: "set (x # xs) = {v \<in> set c. v \<noteq> NaN}"
    using Cons [symmetric] by simp
  then have "\<forall>v \<in> set (x # xs). v \<noteq> NaN"
    by blast
  from fold_double_min [OF this]
  have "fold double_min xs x \<in> {v \<in> set c. v \<noteq> NaN}"
    and "\<forall>v \<in> {v \<in> set c. v \<noteq> NaN}. double_le (fold double_min xs x) v"
    unfolding s by blast+
  moreover have "column_min c = fold double_min xs x"
    by (simp add: column_min_def Cons)
  moreover have "\<exists>v \<in> set c. v \<noteq> NaN"
    using s by auto
  ultimately show ?thesis
    by auto
qed

lemma frame_min_columns: "frame_min f = map column_min (frame_columns f)"
  by (simp add: frame_min_def frame_columns_def)

lemma example_matrix_columns:
  "frame_columns example_matrix =
     [[Num (1/2), Num (1/4)], [Num (1/4), Num (1/4)], [Num (1/8), Num (1/4)],
      [Num (1/8), Num (1/4)]]"
  by (simp add: example_matrix_def frame_columns_def column_values_def upt_rec)

lemma example_matrix_min:
  "frame_min example_matrix = [Num (1/4), Num (1/4), Num (1/8), Num (1/8)]"
  by (simp add: frame_min_columns example_matrix_columns column_min_def double_min_def)

text \<open>
  On a table with one row per position, the sum of the rows' minima is not what
  \<open>compute_minValue\<close> stores: \<open>DataFrame.min()\<close> takes the minimum of every column.
  In \<open>example_matrix\<close> the rows' minima are 1/8 and 1/4, the columns' minima are
  1/4, 1/4, 1/8 and 1/8; all are multiples of 1/8, whose float64 sums are exact.
\<close>

theorem compute_minValue_rows_counterexample:
  "rectangular (count_matrix example_motif) \<and>
   columns (count_matrix example_motif) = [''A'', ''C'', ''G'', ''T''] \<and>
   int (length (data_rows (count_matrix example_motif))) = width example_motif \<and>
   sum_of_row_minima exact_sum (data_rows (count_matrix example_motif)) = Num (3 / 8) \<and>
   min_val (compute_minValue exact_sum example_motif) = Num (3 / 4) \<and>
   min_val (compute_minValue exact_sum example_motif)
     \<noteq> sum_of_row_minima exact_sum (data_rows (count_matrix example_motif))"
proof -
  have cm: "count_matrix example_motif = example_matrix"
    by (simp add: example_motif_def)
  have rows: "sum_of_row_minima exact_sum (data_rows example_matrix) = Num (3 / 8)"
    by (simp add: sum_of_row_minima_def example_matrix_def column_min_def double_min_def
        exact_sum_def)
  have code: "min_val (compute_minValue exact_sum example_motif) = Num (3 / 4)"
    by (simp add: compute_minValue_def getMotif_matrix_def cm example_matrix_min
        exact_sum_def)
  have "rectangular example_matrix"
    by (simp add: rectangular_def example_matrix_def)
  moreover have "columns example_matrix = [''A'', ''C'', ''G'', ''T'']"
    and "int (length (data_rows example_matrix)) = width example_motif"
    by (simp_all add: example_matrix_def example_motif_def)
  ultimately show ?thesis
    by (simp add: cm rows code)
qed

text \<open>
  The same for every \<open>Series.sum()\<close> that is right on the two lists of minima, as the
  float64 sum is: what \<open>compute_minValue\<close> stores for \<open>example_motif\<close> is not the sum
  of the rows' minima.
\<close>

lemma compute_minValue_rows_any_sum:
  assumes "series_sum [Num (1/4), Num (1/4), Num (1/8), Num (1/8)] = Num (3 / 4)"
    and "series_sum [Num (1/8), Num (1/4)] = Num (3 / 8)"
  shows "min_val (compute_minValue series_sum example_motif)
           \<noteq> sum_of_row_minima series_sum (data_rows (count_matrix example_motif))"
proof -
  have "min_val (compute_minValue series_sum example_motif) = Num (3 / 4)"
    using assms(1)
    by (simp add: compute_minValue_def getMotif_matrix_def example_motif_def
        example_matrix_min)
  moreover have "sum_of_row_minima series_sum (data_rows (count_matrix example_motif))
                   = Num (3 / 8)"
    using assms(2)
    by (simp add: sum_of_row_minima_def example_motif_def example_matrix_def column_min_def
        double_min_def)
  ultimately show ?thesis
    by simp
qed

text \<open>
  Claim C1, as the code has it: \<open>compute_minValue\<close> sets \<open>_min_val\<close> to what
  \<open>Series.sum()\<close> returns for the Series of the minima of the columns of the
  probability matrix, one entry per column, and changes no other attribute. The minimum
  of a column is its least entry that is not NaN (NaN when it has no such entry). That
  is the sum over the positions of the position's minimum when the matrix has one column
  per position (and one row per symbol); for a matrix with one row per position it is
  the sum over the four symbols of the symbol's minimum.
\<close>

theorem compute_minValue_column_minima:
  "compute_minValue series_sum m =
     m\<lparr>min_val := sum_of_row_minima series_sum (frame_columns (count_matrix m))\<rparr> \<and>
   length (frame_columns (count_matrix m)) = length (columns (count_matrix m)) \<and>
   (\<forall>j < length (columns (count_matrix m)).
      frame_columns (count_matrix m) ! j = map (\<lambda>r. r ! j) (data_rows (count_matrix m))) \<and>
   ((\<forall>v \<in> set c. v = NaN) \<longrightarrow> column_min c = NaN) \<and>
   ((\<exists>v \<in> set c. v \<noteq> NaN) \<longrightarrow>
      column_min c \<in> set c \<and> column_min c \<noteq> NaN \<and>
      (\<forall>v \<in> set c. v \<noteq> NaN \<longrightarrow> double_le (column_min c) v))"
proof -
  have "compute_minValue series_sum m =
     m\<lparr>min_val := sum_of_row_minima series_sum (frame_columns (count_matrix m))\<rparr>"
    by (simp add: compute_minValue_def getMotif_matrix_def frame_min_columns
        sum_of_row_minima_def)
  moreover have "length (frame_columns (count_matrix m)) = length (columns (count_matrix m))"
    by (simp add: frame_columns_def)
  moreover have "\<forall>j < length (columns (count_matrix m)).
      frame_columns (count_matrix m) ! j = map (\<lambda>r. r ! j) (data_rows (count_matrix m))"
    by (simp add: frame_columns_def column_values_def)
  ultimately show ?thesis
    using column_min_least [of c] by blast
qed

theorem compute_minValue_column_minima_witness:
  "frame_columns (count_matrix example_motif) ! 2 = [Num (1/8), Num (1/4)] \<and>
   column_min [Num (1/8), Num (1/4)] = Num (1/8) \<and>
   column_min [NaN, Num (1/4), NaN, Num (1/8)] = Num (1/8) \<and>
   column_min [NaN, NaN] = NaN \<and>
   double_le (column_min [NaN, Num (1/4), NaN, Num (1/8)]) (Num (1/4)) \<and>
   compute_minValue exact_sum example_motif = example_motif\<lparr>min_val := Num (3 / 4)\<rparr>"
proof -
  have cm: "count_matrix example_motif = example_matrix"
    by (simp add: example_motif_def)
  have n: "(2::nat) < length (columns (count_matrix example_motif))"
    by (simp add: cm example_matrix_def)
  have c2: "map (\<lambda>r. r ! 2) (data_rows (count_matrix example_motif)) = [Num (1/8), Num (1/4)]"
    by (simp add: cm example_matrix_def)
  have s: "sum_of_row_minima exact_sum (frame_columns (count_matrix example_motif)) = Num (3 / 4)"
    by (simp add: cm sum_of_row_minima_def frame_min_columns [symmetric] example_matrix_min
        exact_sum_def)
  have a: "\<forall>v \<in> set [NaN, NaN]. v = NaN"
    by simp
  have e: "\<exists>v \<in> set [NaN, Num (1/4), NaN, Num (1/8)]. v \<noteq> NaN"
    by simp
  have m1: "column_min [Num (1/8), Num (1/4)] = Num (1/8)"
    and m2: "column_min [NaN, Num (1/4), NaN, Num (1/8)] = Num (1/8)"
    by (simp_all add: column_min_def double_min_def)
  show ?thesis
    using compute_minValue_column_minima [of exact_sum example_motif "[NaN, NaN]"]
          compute_minValue_column_minima
            [of exact_sum example_motif "[NaN, Num (1/4), NaN, Num (1/8)]"]
          n c2 s a e m1 m2
    by simp
qed

subsection \<open>print\<close>

lemma Motif_print_nonempty_selector:
  "s \<noteq> [] \<Longrightarrow> Motif_print m (Is s) = Inl (NameError ''allowed_matrices'')"
  by (simp add: Motif_print_def lookup_name_def print_locals_def motif_globals_def)

text \<open>
  Claim C2 says that \<open>print\<close> writes the matrix a valid selector names and raises the
  unknown-matrix \<open>ValueError\<close> for another non-empty selector. The code tests the
  selector against \<open>allowed_matrices\<close>, a name that nothing binds (the list is bound to
  \<open>available_matrices\<close>): a valid selector and an unknown one both end in
  \<open>NameError\<close>, and nothing is printed.
\<close>

theorem Motif_print_raises_NameError:
  "Motif_print example_motif (Is ''raw_counts'') = Inl (NameError ''allowed_matrices'') \<and>
   Motif_print example_motif (Is ''score_matrix'') = Inl (NameError ''allowed_matrices'') \<and>
   Motif_print example_motif (Is ''pval_matrix'') = Inl (NameError ''allowed_matrices'') \<and>
   Motif_print example_motif (Is ''counts'') = Inl (NameError ''allowed_matrices'')"
  by (simp add: Motif_print_def lookup_name_def print_locals_def motif_globals_def)

subsection \<open>setIsScaled\<close>

lemma Motif_init_not_scaled:
  "Motif_init c w a i n = Inr m0 \<Longrightarrow> \<not> isScaled m0"
  unfolding Motif_init_def
  by (cases c; cases w; cases a; cases i; cases n) (auto split: if_splits)

text \<open>
  Claim C6: a constructed Motif has \<open>_isScaled\<close> false; \<open>setIsScaled\<close> on a Motif that
  is not scaled sets the flag and nothing else, and a second call then fails; on a Motif
  whose flag is set, \<open>setIsScaled\<close> raises \<open>AssertionError\<close> and leaves every
  attribute, the flag included, as it was.
\<close>

theorem setIsScaled_write_once:
  "(Motif_init c w a i n = Inr m0 \<longrightarrow> getIsScaled m0 = False) \<and>
   (\<not> isScaled m \<longrightarrow>
      setIsScaled m = (Inr (), m\<lparr>isScaled := True\<rparr>) \<and>
      setIsScaled (snd (setIsScaled m))
        = (Inl (AssertionError already_scaled_msg), snd (setIsScaled m))) \<and>
   (isScaled m \<longrightarrow>
      setIsScaled m = (Inl (AssertionError already_scaled_msg), m) \<and>
      isScaled (snd (setIsScaled m)))"
  using Motif_init_not_scaled [of c w a i n m0]
  by (simp add: setIsScaled_def getIsScaled_def)

theorem setIsScaled_write_once_witness:
  "Motif_init (Is example_matrix) (Is 2) (Is [''A'', ''C'', ''G'', ''T'']) (Is ''MA0001.1'')
     (Is ''AGL3'') = Inr example_motif \<and>
   getIsScaled example_motif = False \<and>
   setIsScaled example_motif = (Inr (), example_motif\<lparr>isScaled := True\<rparr>) \<and>
   setIsScaled (example_motif\<lparr>isScaled := True\<rparr>)
     = (Inl (AssertionError already_scaled_msg), example_motif\<lparr>isScaled := True\<rparr>)"
proof -
  have fresh: "\<not> isScaled example_motif"
    by (simp add: example_motif_def)
  have scaled: "isScaled (example_motif\<lparr>isScaled := True\<rparr>)"
    by simp
  show ?thesis
    using setIsScaled_write_once
            [of "Is example_matrix" "Is 2" "Is [''A'', ''C'', ''G'', ''T'']" "Is ''MA0001.1''"
               "Is ''AGL3''" example_motif example_motif]
          setIsScaled_write_once
            [of "Is example_matrix" "Is 2" "Is [''A'', ''C'', ''G'', ''T'']" "Is ''MA0001.1''"
               "Is ''AGL3''" example_motif "example_motif\<lparr>isScaled := True\<rparr>"]
          fresh scaled example_motif_constructed
    by simp
qed

subsection \<open>The alphabet\<close>

text \<open>
  The constructor also rejects an alphabet whose elements are the four symbols when the
  list is not four long: \<open>isListEqual\<close> compares the lengths before the sets.
\<close>

theorem Motif_init_alphabet_counterexample:
  "set [''A'', ''C'', ''G'', ''T'', ''T''] = set DNA_ALPHABET \<and>
   Motif_init (Is example_matrix) (Is 2) (Is [''A'', ''C'', ''G'', ''T'', ''T''])
     (Is ''MA0001.1'') (Is ''AGL3'') = Inl (ValueError not_DNA_msg)"
  by (simp add: Motif_init_def example_matrix_def frame_empty_def isListEqual_def
      DNA_ALPHABET_def)

text \<open>
  Claim C8, as the code has it: \<open>isListEqual\<close> is true of A, C, G, T and T, G, C, A and
  false of A, C, G and A, C, G, T; and with a non-empty matrix, a positive width and
  non-empty id and name, the constructor raises the not-DNA-alphabet \<open>ValueError\<close> for
  exactly the alphabets that are not four elements long or whose set of elements is not
  that of the DNA alphabet.
\<close>

theorem Motif_init_alphabet:
  "isListEqual [''A'', ''C'', ''G'', ''T''] [''T'', ''G'', ''C'', ''A''] \<and>
   \<not> isListEqual [''A'', ''C'', ''G''] [''A'', ''C'', ''G'', ''T''] \<and>
   (\<not> frame_empty cm \<and> 0 < w \<and> i \<noteq> [] \<and> n \<noteq> [] \<longrightarrow>
      (Motif_init (Is cm) (Is w) (Is a) (Is i) (Is n) = Inl (ValueError not_DNA_msg))
        = (\<not> (length a = 4 \<and> set a = set DNA_ALPHABET)))"
proof -
  have "isListEqual [''A'', ''C'', ''G'', ''T''] [''T'', ''G'', ''C'', ''A'']"
    by (auto simp: isListEqual_def)
  moreover have "\<not> isListEqual [''A'', ''C'', ''G''] [''A'', ''C'', ''G'', ''T'']"
    by (simp add: isListEqual_def)
  ultimately show ?thesis
    by (simp add: Motif_init_def isListEqual_DNA)
qed

theorem Motif_init_alphabet_witness:
  "\<not> frame_empty example_matrix \<and>
   Motif_init (Is example_matrix) (Is 2) (Is [''T'', ''G'', ''C'', ''A'']) (Is ''MA0001.1'')
     (Is ''AGL3'') \<noteq> Inl (ValueError not_DNA_msg) \<and>
   Motif_init (Is example_matrix) (Is 2) (Is [''A'', ''C'', ''G'']) (Is ''MA0001.1'')
     (Is ''AGL3'') = Inl (ValueError not_DNA_msg)"
proof -
  have ne: "\<not> frame_empty example_matrix"
    by (simp add: example_matrix_def frame_empty_def)
  show ?thesis
    using Motif_init_alphabet
            [of example_matrix 2 "''MA0001.1''" "''AGL3''" "[''T'', ''G'', ''C'', ''A'']"]
          Motif_init_alphabet
            [of example_matrix 2 "''MA0001.1''" "''AGL3''" "[''A'', ''C'', ''G'']"]
          ne
    by (auto simp: DNA_ALPHABET_def)
qed

text \<open>
  Claim C10: for a reordering \<open>a\<close> of the four symbols, \<open>setAlphabet\<close> succeeds and
  binds \<open>a\<close> to the attribute \<open>alphabet\<close>, leaving \<open>_alphabet\<close> and every other
  attribute as they were, so that \<open>getAlphabet\<close> returns what it returned before; and
  no call of \<open>setAlphabet\<close>, failed or not, changes what \<open>getAlphabet\<close> returns.
\<close>

theorem setAlphabet_keeps_getAlphabet:
  "(mset a = mset DNA_ALPHABET \<longrightarrow>
      setAlphabet m (Is a) = (Inr (), m\<lparr>alphabet_attr := Some a\<rparr>) \<and>
      getAlphabet (snd (setAlphabet m (Is a))) = getAlphabet m) \<and>
   getAlphabet (snd (setAlphabet m x)) = getAlphabet m"
proof -
  have ok: "isListEqual a DNA_ALPHABET \<and> length a \<noteq> 0"
    if perm: "mset a = mset DNA_ALPHABET"
  proof -
    have "length a = length DNA_ALPHABET" and "set a = set DNA_ALPHABET"
      using mset_eq_length [OF perm] mset_eq_setD [OF perm] by blast+
    moreover have "length DNA_ALPHABET = 4"
      by (simp add: DNA_ALPHABET_def)
    ultimately show ?thesis
      by (simp add: isListEqual_def)
  qed
  have frame: "getAlphabet (snd (setAlphabet m x)) = getAlphabet m"
    by (cases x) (simp_all add: setAlphabet_def getAlphabet_def)
  show ?thesis
    using ok frame by (simp add: setAlphabet_def getAlphabet_def)
qed

theorem setAlphabet_keeps_getAlphabet_witness:
  "mset [''T'', ''G'', ''C'', ''A''] = mset DNA_ALPHABET \<and>
   setAlphabet example_motif (Is [''T'', ''G'', ''C'', ''A''])
     = (Inr (), example_motif\<lparr>alphabet_attr := Some [''T'', ''G'', ''C'', ''A'']\<rparr>) \<and>
   getAlphabet (snd (setAlphabet example_motif (Is [''T'', ''G'', ''C'', ''A''])))
     = [''A'', ''C'', ''G'', ''T'']"
proof -
  have perm: "mset [''T'', ''G'', ''C'', ''A''] = mset DNA_ALPHABET"
    by (simp add: DNA_ALPHABET_def)
  have "getAlphabet example_motif = [''A'', ''C'', ''G'', ''T'']"
    by (simp add: getAlphabet_def example_motif_def)
  then show ?thesis
    using setAlphabet_keeps_getAlphabet [of "[''T'', ''G'', ''C'', ''A'']" example_motif] perm
    by (simp add: getAlphabet_def)
qed


section \<open>Properties of motif\_set.py\<close>

lemma one_set_store_eq:
  "addMotif (MotifSet_class :: nat store) 0 (Is [Is 10]) =
     (Inr (), \<lparr> class_motifs = [Is 10], inst_motifs_num = [0 \<mapsto> 1] \<rparr>)"
  by (simp add: addMotif_def MotifSet_class_def motifs_num_def Let_def)

lemma one_set_store_simp:
  "one_set_store = \<lparr> class_motifs = [Is 10], inst_motifs_num = [0 \<mapsto> 1] \<rparr>"
  by (simp only: one_set_store_def one_set_store_eq snd_conv)

lemma two_sets_store_eq:
  "addMotif one_set_store 1 (Is [Is 20]) =
     (Inr (), \<lparr> class_motifs = [Is 10, Is 20], inst_motifs_num = [0 \<mapsto> 1, 1 \<mapsto> 1] \<rparr>)"
  by (simp add: one_set_store_simp addMotif_def motifs_num_def Let_def)

lemma two_sets_store_simp:
  "two_sets_store = \<lparr> class_motifs = [Is 10, Is 20], inst_motifs_num = [0 \<mapsto> 1, 1 \<mapsto> 1] \<rparr>"
  by (simp only: two_sets_store_def two_sets_store_eq snd_conv)

subsection \<open>addMotif\<close>

lemma addMotif_Motifs:
  assumes "list_all is_instance mtfs" "0 < motifs_num st self + int (length mtfs)"
  shows "addMotif st self (Is mtfs) =
     (Inr (), st\<lparr>class_motifs := class_motifs st @ mtfs,
                 inst_motifs_num :=
                   (inst_motifs_num st)(self \<mapsto> motifs_num st self + int (length mtfs))\<rparr>)"
  using assms by (simp add: addMotif_def Let_def motifs_num_def)

lemma addMotif_empty_on_empty:
  assumes "motifs_num st self = 0"
  shows "addMotif st self (Is []) =
     (Inl (AssertionError []), st\<lparr>inst_motifs_num := (inst_motifs_num st)(self \<mapsto> 0)\<rparr>)"
  using assms by (simp add: addMotif_def Let_def motifs_num_def)

lemma addMotif_count:
  "motifs_num (snd (addMotif st self (Is mtfs))) self =
     motifs_num st self + (if list_all is_instance mtfs then int (length mtfs) else 0)"
  by (simp add: addMotif_def Let_def motifs_num_def lookup_name_def addMotif_locals_def
      motif_set_globals_def)

lemma addMotif_other_instance:
  "s \<noteq> self \<Longrightarrow> motifs_num (snd (addMotif st s mtfs_a)) self = motifs_num st self"
  by (cases mtfs_a)
     (simp_all add: addMotif_def Let_def motifs_num_def lookup_name_def addMotif_locals_def
        motif_set_globals_def)

lemma addMotif_not_Motif:
  "\<not> list_all is_instance mtfs \<Longrightarrow>
   addMotif st self (Is mtfs) = (Inl (NameError ''m''), st)"
  by (simp add: addMotif_def lookup_name_def addMotif_locals_def motif_set_globals_def)

text \<open>
  On a MotifSet that holds nothing, \<open>addMotif([])\<close> does not succeed: the count is
  still 0 after the addition and \<open>assert self._motifs_num > 0\<close> fails.
\<close>

theorem addMotif_empty_batch_counterexample:
  "motifs_num (MotifSet_class :: nat store) 0 = 0 \<and>
   fst (addMotif (MotifSet_class :: nat store) 0 (Is [])) = Inl (AssertionError [])"
  by (simp add: addMotif_def MotifSet_class_def motifs_num_def Let_def)

text \<open>
  Claim C3, as the code has it. On a MotifSet whose count is positive, \<open>addMotif([])\<close>
  succeeds and changes nothing; on one whose count is 0 it raises \<open>AssertionError\<close>,
  and the count and the list of motifs are what they were. On every MotifSet (the count
  is never negative), \<open>addMotif([m1, m2])\<close> succeeds, adds exactly 2 to the count and
  puts \<open>m1\<close> and \<open>m2\<close>, in this order, at the end of the list of motifs; when the
  count was the length of the list before the call, the elements of the list at the old
  count and after it are \<open>m1\<close> and \<open>m2\<close>.
\<close>

theorem addMotif_batches:
  "(0 < motifs_num st self \<longrightarrow>
      addMotif st self (Is []) = (Inr (), st)) \<and>
   (motifs_num st self = 0 \<longrightarrow>
      fst (addMotif st self (Is [])) = Inl (AssertionError []) \<and>
      motifs_num (snd (addMotif st self (Is []))) self = 0 \<and>
      class_motifs (snd (addMotif st self (Is []))) = class_motifs st) \<and>
   (0 \<le> motifs_num st self \<longrightarrow>
      (let st' = snd (addMotif st self (Is [Is m1, Is m2])) in
       fst (addMotif st self (Is [Is m1, Is m2])) = Inr () \<and>
       motifs_num st' self = motifs_num st self + 2 \<and>
       class_motifs st' = class_motifs st @ [Is m1, Is m2] \<and>
       (int (length (class_motifs st)) = motifs_num st self \<longrightarrow>
          getMotifsList st' self = Inr (class_motifs st') \<and>
          list_getitem (class_motifs st') (motifs_num st self) = Inr (Is m1) \<and>
          list_getitem (class_motifs st') (motifs_num st self + 1) = Inr (Is m2))))"
proof -
  have a: "addMotif st self (Is []) = (Inr (), st)" if "0 < motifs_num st self"
  proof -
    from that obtain n where n: "inst_motifs_num st self = Some n"
      by (auto simp: motifs_num_def split: option.splits)
    then have "(inst_motifs_num st)(self \<mapsto> n) = inst_motifs_num st"
      by (simp add: map_upd_triv)
    with that n show ?thesis
      by (simp add: addMotif_def Let_def motifs_num_def)
  qed
  have b: "fst (addMotif st self (Is [])) = Inl (AssertionError []) \<and>
           motifs_num (snd (addMotif st self (Is []))) self = 0 \<and>
           class_motifs (snd (addMotif st self (Is []))) = class_motifs st"
    if "motifs_num st self = 0"
    using that by (simp add: addMotif_empty_on_empty) (simp add: motifs_num_def)
  define st' where "st' = snd (addMotif st self (Is [Is m1, Is m2]))"
  have c: "fst (addMotif st self (Is [Is m1, Is m2])) = Inr () \<and>
           motifs_num st' self = motifs_num st self + 2 \<and>
           class_motifs st' = class_motifs st @ [Is m1, Is m2]"
    if "0 \<le> motifs_num st self"
    unfolding st'_def using that addMotif_Motifs [of "[Is m1, Is m2]" st self]
    by (simp add: motifs_num_def)
  have d: "getMotifsList st' self = Inr (class_motifs st') \<and>
           list_getitem (class_motifs st') (motifs_num st self) = Inr (Is m1) \<and>
           list_getitem (class_motifs st') (motifs_num st self + 1) = Inr (Is m2)"
    if "0 \<le> motifs_num st self" "int (length (class_motifs st)) = motifs_num st self"
  proof -
    have n: "nat (motifs_num st self) = length (class_motifs st)"
      using that(2) by simp
    have n1: "nat (motifs_num st self + 1) = Suc (length (class_motifs st))"
      using that(2) by simp
    show ?thesis
      using c [OF that(1)] that
      by (simp add: getMotifsList_def list_getitem_def Let_def n n1 nth_append)
  qed
  show ?thesis
    using a b c d by (simp add: Let_def st'_def)
qed

theorem addMotif_batches_witness:
  "motifs_num one_set_store 0 = 1 \<and>
   int (length (class_motifs one_set_store)) = motifs_num one_set_store 0 \<and>
   addMotif one_set_store 0 (Is []) = (Inr (), one_set_store) \<and>
   fst (addMotif one_set_store 0 (Is [Is 20, Is 30])) = Inr () \<and>
   motifs_num (snd (addMotif one_set_store 0 (Is [Is 20, Is 30]))) 0 = 3 \<and>
   class_motifs (snd (addMotif one_set_store 0 (Is [Is 20, Is 30]))) = [Is 10, Is 20, Is 30] \<and>
   list_getitem (class_motifs (snd (addMotif one_set_store 0 (Is [Is 20, Is 30])))) 1
     = Inr (Is 20) \<and>
   motifs_num (MotifSet_class :: nat store) 0 = 0 \<and>
   fst (addMotif (MotifSet_class :: nat store) 0 (Is [])) = Inl (AssertionError []) \<and>
   motifs_num (snd (addMotif (MotifSet_class :: nat store) 0 (Is []))) 0 = 0"
proof -
  have n: "motifs_num one_set_store 0 = 1"
    by (simp add: one_set_store_simp motifs_num_def)
  have l: "class_motifs one_set_store = [Is 10]"
    by (simp add: one_set_store_simp)
  have z: "motifs_num (MotifSet_class :: nat store) 0 = 0"
    by (simp add: MotifSet_class_def motifs_num_def)
  show ?thesis
    using addMotif_batches [of one_set_store 0 20 30]
          addMotif_batches [of "MotifSet_class :: nat store" 0 20 30] n l z
    by (simp add: Let_def list_getitem_def)
qed

text \<open>
  Claim C4 says that a batch with an element that is not a Motif fails with
  \<open>TypeError\<close> and leaves the set as it was. The set is left as it was, but the
  exception is \<open>NameError\<close>: the message of the \<open>TypeError\<close> is formatted with
  \<open>type(m)\<close>, and \<open>m\<close> is bound only inside the generator expression of the line
  before.
\<close>

theorem addMotif_not_Motif_raises_NameError:
  "addMotif (MotifSet_class :: nat store) 0 (Is [IsNot ''str''])
     = (Inl (NameError ''m''), MotifSet_class) \<and>
   addMotif one_set_store 0 (Is [Is 20, IsNot ''int''])
     = (Inl (NameError ''m''), one_set_store)"
  by (simp add: addMotif_def lookup_name_def addMotif_locals_def motif_set_globals_def)

subsection \<open>getMotifsList and size\<close>

text \<open>
  Claim C5: a MotifSet to which no Motif has been added still has the count 0
  (\<open>addMotif\<close> is the only writer of the count: it adds the length of the batch to
  the count of its own instance, see \<open>addMotif_count\<close> and
  \<open>addMotif_other_instance\<close>). On it \<open>getMotifsList\<close> raises the \<open>ValueError\<close> of
  the empty set and \<open>size\<close> returns 0; so it is on every MotifSet of the store the
  class statement leaves.
\<close>

theorem empty_MotifSet_list_and_size:
  "(motifs_num st self = 0 \<longrightarrow>
      getMotifsList st self = Inl (ValueError empty_set_msg) \<and>
      MotifSet_size st self = Inr 0) \<and>
   getMotifsList (MotifSet_class :: 'm store) self = Inl (ValueError empty_set_msg) \<and>
   MotifSet_size (MotifSet_class :: 'm store) self = Inr 0"
  by (simp add: getMotifsList_def MotifSet_size_def MotifSet_class_def motifs_num_def)

theorem empty_MotifSet_list_and_size_witness:
  "motifs_num one_set_store 1 = 0 \<and>
   class_motifs one_set_store = [Is 10] \<and>
   getMotifsList one_set_store 1 = Inl (ValueError empty_set_msg) \<and>
   MotifSet_size one_set_store 1 = Inr 0"
proof -
  have z: "motifs_num one_set_store 1 = 0"
    by (simp add: one_set_store_simp motifs_num_def)
  have l: "class_motifs one_set_store = [Is 10]"
    by (simp add: one_set_store_simp)
  from empty_MotifSet_list_and_size [of one_set_store 1] z
  have "getMotifsList one_set_store 1 = Inl (ValueError empty_set_msg) \<and>
        MotifSet_size one_set_store 1 = Inr 0"
    by blast
  with z l show ?thesis
    by blast
qed

subsection \<open>Iteration\<close>

text \<open>
  In a store where the count of a MotifSet is the length of the list of the class, as
  it is while a program has made one MotifSet only, a cursor at index \<open>k\<close> below the
  count yields the element \<open>k\<close> of the list and moves to \<open>k + 1\<close>, and a cursor at the
  count raises \<open>StopIteration\<close>.
\<close>

lemma MotifSetIterator_next_single_set:
  assumes "int (length (class_motifs st)) = motifs_num st self"
  shows "0 \<le> k \<and> k < motifs_num st self \<longrightarrow>
           MotifSetIterator_next st \<lparr>motifSet = self, index = k\<rparr>
             = (Inr (class_motifs st ! nat k), \<lparr>motifSet = self, index = k + 1\<rparr>)"
    and "MotifSetIterator_next st \<lparr>motifSet = self, index = motifs_num st self\<rparr>
           = (Inl StopIteration, \<lparr>motifSet = self, index = motifs_num st self\<rparr>)"
proof -
  have nonneg: "0 \<le> motifs_num st self"
    using assms [symmetric] by simp
  show "0 \<le> k \<and> k < motifs_num st self \<longrightarrow>
           MotifSetIterator_next st \<lparr>motifSet = self, index = k\<rparr>
             = (Inr (class_motifs st ! nat k), \<lparr>motifSet = self, index = k + 1\<rparr>)"
  proof
    assume k: "0 \<le> k \<and> k < motifs_num st self"
    then have "class_motifs st \<noteq> []" and "motifs_num st self \<noteq> 0"
      using assms by auto
    with k nonneg assms show "MotifSetIterator_next st \<lparr>motifSet = self, index = k\<rparr>
             = (Inr (class_motifs st ! nat k), \<lparr>motifSet = self, index = k + 1\<rparr>)"
      by (simp add: MotifSetIterator_next_def MotifSet_size_def getMotifsList_def
          list_getitem_def Let_def)
  qed
  show "MotifSetIterator_next st \<lparr>motifSet = self, index = motifs_num st self\<rparr>
           = (Inl StopIteration, \<lparr>motifSet = self, index = motifs_num st self\<rparr>)"
    using nonneg by (simp add: MotifSetIterator_next_def MotifSet_size_def)
qed

lemma MotifSetIterator_next_empty:
  "motifs_num st self = 0 \<Longrightarrow>
   MotifSetIterator_next st \<lparr>motifSet = self, index = 0\<rparr>
     = (Inl StopIteration, \<lparr>motifSet = self, index = 0\<rparr>)"
  by (simp add: MotifSetIterator_next_def MotifSet_size_def)

text \<open>
  Claim C7 says that a cursor of a MotifSet yields the Motifs the set contains, in the
  order they were added. \<open>__iter__\<close> gives a cursor at index 0 and \<open>__next__\<close> raises
  \<open>StopIteration\<close> at the count, but the list a cursor reads is the one list of the
  class: after \<open>addMotif([m10])\<close> on a first MotifSet and \<open>addMotif([m20])\<close> on a
  second one, a cursor of the second yields \<open>m10\<close>, which only the first was given, and
  then stops; it never yields \<open>m20\<close>.
\<close>

theorem iteration_of_second_MotifSet:
  "addMotif (MotifSet_class :: nat store) 0 (Is [Is 10]) = (Inr (), one_set_store) \<and>
   addMotif one_set_store 1 (Is [Is 20]) = (Inr (), two_sets_store) \<and>
   MotifSet_iter 1 = Inr \<lparr>motifSet = 1, index = 0\<rparr> \<and>
   MotifSetIterator_next two_sets_store \<lparr>motifSet = 1, index = 0\<rparr>
     = (Inr (Is 10), \<lparr>motifSet = 1, index = 1\<rparr>) \<and>
   MotifSetIterator_next two_sets_store \<lparr>motifSet = 1, index = 1\<rparr>
     = (Inl StopIteration, \<lparr>motifSet = 1, index = 1\<rparr>)"
proof -
  have "MotifSetIterator_next two_sets_store \<lparr>motifSet = 1, index = 0\<rparr>
          = (Inr (Is 10), \<lparr>motifSet = 1, index = 1\<rparr>)"
    by (simp add: two_sets_store_simp MotifSetIterator_next_def MotifSet_size_def
        getMotifsList_def list_getitem_def motifs_num_def Let_def)
  moreover have "MotifSetIterator_next two_sets_store \<lparr>motifSet = 1, index = 1\<rparr>
          = (Inl StopIteration, \<lparr>motifSet = 1, index = 1\<rparr>)"
    by (simp add: two_sets_store_simp MotifSetIterator_next_def MotifSet_size_def
        motifs_num_def)
  moreover have "MotifSet_iter 1 = Inr \<lparr>motifSet = 1, index = 0\<rparr>"
    by (simp add: MotifSet_iter_def MotifSetIterator_init_def)
  moreover have "addMotif (MotifSet_class :: nat store) 0 (Is [Is 10]) = (Inr (), one_set_store)"
    by (simp only: one_set_store_simp one_set_store_eq)
  moreover have "addMotif one_set_store 1 (Is [Is 20]) = (Inr (), two_sets_store)"
    by (simp only: two_sets_store_simp two_sets_store_eq)
  ultimately show ?thesis
    by blast
qed


section \<open>Properties of list\_data\<close>

lemma bind_err_Inr [simp]: "bind_err (Inr v) f = f v"
  by (simp add: bind_err_def)

lemma bind_err_Inl [simp]: "bind_err (Inl e) f = Inl e"
  by (simp add: bind_err_def)

lemma count_list_distinct: "distinct cs \<Longrightarrow> count_list cs x \<le> 1"
  by (induction cs) auto

lemma column_to_list_present:
  "distinct (columns f) \<Longrightarrow> label \<in> set (columns f) \<Longrightarrow>
   column_to_list f label = Inr (column_of f label)"
  using count_list_distinct [of "columns f" label] by (simp add: column_to_list_def)

lemma column_to_list_absent:
  "label \<notin> set (columns f) \<Longrightarrow> column_to_list f label = Inl (KeyError label)"
  by (simp add: column_to_list_def)

lemma length_column_of [simp]: "length (column_of f label) = length (data_rows f)"
  by (simp add: column_of_def column_values_def)

text \<open>
  A table of hits without a column of q-values, given with the flag set, makes
  \<open>list_data\<close> raise \<open>KeyError\<close>: the flag alone decides that \<open>data['q-value']\<close>
  is read.
\<close>

theorem list_data_qvalue_counterexample:
  "rectangular example_hits \<and> length (data_rows example_hits) = 2 \<and>
   columns example_hits = hit_labels \<and>
   list_data (Is example_hits) True = Inl (KeyError ''q-value'')"
proof -
  have "list_data (Is example_hits) True = Inl (KeyError ''q-value'')"
    by (simp add: list_data_def example_hits_def column_to_list_def)
  then show ?thesis
    by (simp add: example_hits_def hit_labels_def rectangular_def)
qed

text \<open>
  Claim C9, as the code has it. For a table of hits (distinct column labels, among them
  the eleven of a hit, eleven or twelve columns in all), \<open>list_data\<close> without the flag
  returns the eleven columns of a hit in the order motif id, motif name, sequence name,
  start, stop, strand, score, p-value, matched sequence, haplotype frequency, reference;
  with the flag it returns these and the q-value column last, twelve in all, when the
  table has a q-value column, and raises \<open>KeyError\<close> when it has none. Every column
  returned is as long as the table has rows.
\<close>

theorem list_data_columns:
  "distinct (columns data) \<and> list_all (\<lambda>l. l \<in> set (columns data)) hit_labels \<and>
   11 \<le> length (columns data) \<and> length (columns data) \<le> 12 \<longrightarrow>
     list_data (Is data) False = Inr (map (column_of data) hit_labels) \<and>
     length (map (column_of data) hit_labels) = 11 \<and>
     (''q-value'' \<in> set (columns data) \<longrightarrow>
        list_data (Is data) True = Inr (map (column_of data) (hit_labels @ [''q-value''])) \<and>
        length (map (column_of data) (hit_labels @ [''q-value''])) = 12) \<and>
     (''q-value'' \<notin> set (columns data) \<longrightarrow>
        list_data (Is data) True = Inl (KeyError ''q-value'')) \<and>
     list_all (\<lambda>c. length c = length (data_rows data))
       (map (column_of data) (hit_labels @ [''q-value'']))"
proof (intro impI, elim conjE)
  assume d: "distinct (columns data)"
    and l: "list_all (\<lambda>l. l \<in> set (columns data)) hit_labels"
    and n: "11 \<le> length (columns data)" "length (columns data) \<le> 12"
  have cols: "column_to_list data label = Inr (column_of data label)"
    if "label \<in> set hit_labels" for label
    using l that d by (simp add: list_all_iff column_to_list_present)
  have 1: "list_data (Is data) False = Inr (map (column_of data) hit_labels)"
    using n by (simp add: list_data_def cols hit_labels_def)
  have 2: "list_data (Is data) True = Inr (map (column_of data) (hit_labels @ [''q-value'']))"
    if "''q-value'' \<in> set (columns data)"
    using n column_to_list_present [OF d that]
    by (simp add: list_data_def cols hit_labels_def)
  have 3: "list_data (Is data) True = Inl (KeyError ''q-value'')"
    if "''q-value'' \<notin> set (columns data)"
    using n column_to_list_absent [OF that]
    by (simp add: list_data_def cols hit_labels_def)
  show "list_data (Is data) False = Inr (map (column_of data) hit_labels) \<and>
     length (map (column_of data) hit_labels) = 11 \<and>
     (''q-value'' \<in> set (columns data) \<longrightarrow>
        list_data (Is data) True = Inr (map (column_of data) (hit_labels @ [''q-value''])) \<and>
        length (map (column_of data) (hit_labels @ [''q-value''])) = 12) \<and>
     (''q-value'' \<notin> set (columns data) \<longrightarrow>
        list_data (Is data) True = Inl (KeyError ''q-value'')) \<and>
     list_all (\<lambda>c. length c = length (data_rows data))
       (map (column_of data) (hit_labels @ [''q-value'']))"
    using 1 2 3 by (simp add: hit_labels_def)
qed

theorem list_data_columns_witness:
  "distinct (columns example_hits_q) \<and>
   list_all (\<lambda>l. l \<in> set (columns example_hits_q)) hit_labels \<and>
   length (columns example_hits_q) = 12 \<and>
   ''q-value'' \<in> set (columns example_hits_q) \<and>
   list_data (Is example_hits_q) False = Inr (map (column_of example_hits_q) hit_labels) \<and>
   list_data (Is example_hits_q) True
     = Inr (map (column_of example_hits_q) (hit_labels @ [''q-value''])) \<and>
   column_of example_hits_q ''start'' = [IntCell 120, IntCell 150] \<and>
   column_of example_hits_q ''q-value'' = [FloatCell (1 / 4), FloatCell (1 / 4)]"
proof -
  have c: "columns example_hits_q = hit_labels @ [''q-value'']"
    by (simp add: example_hits_q_def example_hits_def hit_labels_def)
  have d: "distinct (columns example_hits_q)"
    by (simp add: c hit_labels_def)
  have l: "list_all (\<lambda>l. l \<in> set (columns example_hits_q)) hit_labels"
    by (simp add: c list_all_iff)
  have q: "''q-value'' \<in> set (columns example_hits_q)"
    by (simp add: c)
  have n: "length (columns example_hits_q) = 12"
    by (simp add: c hit_labels_def)
  have s: "column_of example_hits_q ''start'' = [IntCell 120, IntCell 150]"
    by (simp add: column_of_def column_values_def example_hits_q_def example_hits_def)
  have v: "column_of example_hits_q ''q-value'' = [FloatCell (1 / 4), FloatCell (1 / 4)]"
    by (simp add: column_of_def column_values_def example_hits_q_def example_hits_def)
  show ?thesis
    using list_data_columns [of example_hits_q] d l q n s v
    by simp
qed

end
